theory Spec2Isabelle
  imports Complex_Main "HOL-Library.Product_Lexorder" "HOL-Library.Multiset"
    "HOL-Library.Code_Target_Nat"
begin

section \<open>Python values used by the converter\<close>

text \<open>
  Strings are lists of characters; a character stands for one code point below 256, so
  \<open>length\<close> and \<open>take\<close> count what Python's \<open>len\<close> and slicing count on such text.
\<close>

subsection \<open>Whitespace, \<open>str.strip\<close> and \<open>str.replace(" ", "")\<close>\<close>

text \<open>
  \<open>str.strip()\<close> without argument removes leading and trailing whitespace; below 256 the
  whitespace code points of Python are 9..13, 28..32, 133 and 160.
\<close>

definition is_space :: "char \<Rightarrow> bool" where
  "is_space c = (c \<in> set [CHR 0x09, CHR 0x0A, CHR 0x0B, CHR 0x0C, CHR 0x0D,
                            CHR 0x1C, CHR 0x1D, CHR 0x1E, CHR 0x1F, CHR 0x20,
                            CHR 0x85, CHR 0xA0])"

definition lstrip :: "string \<Rightarrow> string" where
  "lstrip s = dropWhile is_space s"

definition rstrip :: "string \<Rightarrow> string" where
  "rstrip s = rev (dropWhile is_space (rev s))"

definition strip :: "string \<Rightarrow> string" where
  "strip s = lstrip (rstrip s)"

text \<open>\<open>digest.replace(" ", "")\<close>: every occurrence of the one character U+0020 is removed.\<close>

definition remove_spaces :: "string \<Rightarrow> string" where
  "remove_spaces s = filter (\<lambda>c. c \<noteq> CHR '' '') s"

subsection \<open>Decimal rendering of integers\<close>

definition digit_char :: "nat \<Rightarrow> char" where
  "digit_char d = ''0123456789'' ! (d mod 10)"

definition is_digit :: "char \<Rightarrow> bool" where
  "is_digit c = (c \<in> set ''0123456789'')"

function dec :: "nat \<Rightarrow> string" where
  "dec n = (if n < 10 then [digit_char n] else dec (n div 10) @ [digit_char (n mod 10)])"
  by pat_completeness auto
termination
  by (relation "measure (\<lambda>n. n)") auto

declare dec.simps [simp del]

text \<open>\<open>str(i)\<close> and \<open>f"{i}"\<close> for a Python integer.\<close>

definition int_str :: "int \<Rightarrow> string" where
  "int_str i = (if i < 0 then ''-'' @ dec (nat (- i)) else dec (nat i))"

text \<open>Zero padding to a minimum width, as \<open>%m\<close>, \<open>%d\<close>, \<open>%H\<close>, \<open>%M\<close> and \<open>%S\<close> do (width 2).\<close>

definition zpad :: "nat \<Rightarrow> nat \<Rightarrow> string" where
  "zpad w n = replicate (w - length (dec n)) CHR ''0'' @ dec n"

subsection \<open>Timestamps\<close>

text \<open>
  A \<open>datetime\<close> or pandas \<open>Timestamp\<close>: year, month, day and the nanosecond of the day.
  Python compares them chronologically, which on these fields is the lexicographic order
  of the tuple.
\<close>

type_synonym timestamp = "nat \<times> nat \<times> nat \<times> nat"

definition ts_year :: "timestamp \<Rightarrow> nat" where
  "ts_year t = fst t"

definition ts_month :: "timestamp \<Rightarrow> nat" where
  "ts_month t = fst (snd t)"

definition ts_day :: "timestamp \<Rightarrow> nat" where
  "ts_day t = fst (snd (snd t))"

definition ts_nanos :: "timestamp \<Rightarrow> nat" where
  "ts_nanos t = snd (snd (snd t))"

text \<open>The calendar date of a timestamp.\<close>

definition ts_date :: "timestamp \<Rightarrow> nat \<times> nat \<times> nat" where
  "ts_date t = (ts_year t, ts_month t, ts_day t)"

definition valid_date :: "timestamp \<Rightarrow> bool" where
  "valid_date t = (1000 \<le> ts_year t \<and> ts_year t \<le> 9999 \<and>
                   1 \<le> ts_month t \<and> ts_month t \<le> 12 \<and> 1 \<le> ts_day t \<and> ts_day t \<le> 31)"

text \<open>
  \<open>f"{when:%Y%m%d}"\<close>: month and day are padded to two digits; the year is printed as it
  is, so a year below 1000 has fewer than four digits.
\<close>

definition fmt_ymd :: "timestamp \<Rightarrow> string" where
  "fmt_ymd t = dec (ts_year t) @ zpad 2 (ts_month t) @ zpad 2 (ts_day t)"

text \<open>\<open>f"{when:%Y%m%d%H%M%S}"\<close>.\<close>

definition fmt_ymdhms :: "timestamp \<Rightarrow> string" where
  "fmt_ymdhms t =
     (let s = ts_nanos t div 1000000000
      in fmt_ymd t @ zpad 2 (s div 3600) @ zpad 2 ((s div 60) mod 60) @ zpad 2 (s mod 60))"

subsection \<open>Floats and numeric values\<close>

text \<open>
  A Python float by its exact value: a finite double is a rational number, and negative
  zero, the two infinities and NaN are values of their own. \<open>Finite 0\<close> is \<open>+0.0\<close>.
\<close>

datatype pyfloat = Finite rat | NegZero | Inf bool | NaN

text \<open>
  An element of a numeric pandas column: an integer (\<open>int64\<close>, or \<open>uint64\<close> from \<open>2^63\<close> on) or
  a \<open>float64\<close>. A missing value is the float NaN.
\<close>

datatype number = IntVal int | FloatVal pyfloat

definition is_nan :: "number \<Rightarrow> bool" where
  "is_nan v = (v = FloatVal NaN)"

text \<open>\<open>x * -1\<close> on a float: the sign flips, also on zero and on the infinities.\<close>

fun float_neg :: "pyfloat \<Rightarrow> pyfloat" where
  "float_neg (Finite v) = (if v = 0 then NegZero else Finite (- v))"
| "float_neg NegZero = Finite 0"
| "float_neg (Inf s) = Inf (\<not> s)"
| "float_neg NaN = NaN"

text \<open>\<open>values * -1\<close> on a column element; \<open>int64\<close> arithmetic wraps, so \<open>-2^63\<close> stays.\<close>

fun times_minus_one :: "number \<Rightarrow> number" where
  "times_minus_one (IntVal i) = IntVal (if i = - (2 ^ 63) then i else - i)"
| "times_minus_one (FloatVal f) = FloatVal (float_neg f)"

text \<open>
  \<open>float(n)\<close> on an integer rounds to the nearest double, ties to even: exact below
  \<open>2^53\<close>, and beyond it the low bits that do not fit the 53-bit significand are rounded.
\<close>

function excess_bits :: "nat \<Rightarrow> nat" where
  "excess_bits n = (if n < 2 ^ 53 then 0 else Suc (excess_bits (n div 2)))"
  by pat_completeness auto
termination
  by (relation "measure (\<lambda>n. n)") auto

declare excess_bits.simps [simp del]

definition round_to_double :: "nat \<Rightarrow> nat" where
  "round_to_double n =
     (let e = excess_bits n; q = n div 2 ^ e; r = n mod 2 ^ e
      in if 2 ^ e < 2 * r \<or> (2 * r = 2 ^ e \<and> odd q) then (q + 1) * 2 ^ e else q * 2 ^ e)"

fun to_float :: "number \<Rightarrow> pyfloat" where
  "to_float (IntVal i) =
     Finite (if i < 0 then - of_nat (round_to_double (nat (- i)))
             else of_nat (round_to_double (nat i)))"
| "to_float (FloatVal f) = f"

text \<open>\<open>amount >= 0\<close>: true on both zeros, false on NaN.\<close>

fun ge_zero :: "pyfloat \<Rightarrow> bool" where
  "ge_zero (Finite v) = (0 \<le> v)"
| "ge_zero NegZero = True"
| "ge_zero (Inf s) = (\<not> s)"
| "ge_zero NaN = False"

text \<open>
  \<open>f"{amount:.2f}"\<close>: the exact value rounded to hundredths, ties to even, with the sign
  kept also when the digits are all zero; infinities and NaN have no digits.
\<close>

definition round_half_even :: "rat \<Rightarrow> nat" where
  "round_half_even q =
     (let f = nat \<lfloor>q\<rfloor>; r = q - of_int \<lfloor>q\<rfloor>
      in if r < 1 / 2 then f else if 1 / 2 < r then f + 1 else if even f then f else f + 1)"

definition hundredths :: "nat \<Rightarrow> string" where
  "hundredths n = dec (n div 100) @ ''.'' @ zpad 2 (n mod 100)"

fun format_2f :: "pyfloat \<Rightarrow> string" where
  "format_2f (Finite v) =
     (if v < 0 then ''-'' else '''') @ hundredths (round_half_even (\<bar>v\<bar> * 100))"
| "format_2f NegZero = ''-0.00''"
| "format_2f (Inf s) = (if s then ''-inf'' else ''inf'')"
| "format_2f NaN = ''nan''"

section \<open>Transaction identifiers\<close>

text \<open>
  \<open>generate_fitid(row_index, when, amount, memo)\<close>: the three formatted fields joined by
  \<open>-\<close>, the first 20 characters of the stripped memo appended when the memo is a non-empty
  string, then every space character removed.
\<close>

definition generate_fitid :: "int \<Rightarrow> timestamp \<Rightarrow> pyfloat \<Rightarrow> string \<Rightarrow> string" where
  "generate_fitid row_index when amount memo =
     (let digest = fmt_ymd when @ ''-'' @ format_2f amount @ ''-'' @ int_str row_index;
          digest = (if memo \<noteq> [] then digest @ ''-'' @ take 20 (strip memo) else digest)
      in remove_spaces digest)"

section \<open>Tables\<close>

text \<open>
  A cell of a data frame: text, a number (NaN is the missing value), or a timestamp
  (\<open>None\<close> is \<open>NaT\<close>), which is what line 58 stores in the column \<open>__date\<close>.
\<close>

datatype cell = Text string | Num number | Time "timestamp option"

text \<open>
  The functions of pandas and Python that the converter calls and whose results depend on
  code outside the repository are parameters of the model:
  \<^item> \<open>to_datetime fmt s k\<close> is element \<open>k\<close> of \<open>pd.to_datetime(s, format=fmt, errors="coerce")\<close>
    (\<open>fmt = None\<close> when no format is passed), \<open>None\<close> for \<open>NaT\<close>;
  \<^item> \<open>to_numeric s k\<close> is element \<open>k\<close> of \<open>pd.to_numeric(s, errors="coerce")\<close>;
  \<^item> \<open>argsort ks\<close> is the order in which \<open>sort_values\<close> takes the rows whose keys are \<open>ks\<close>;
  \<^item> \<open>repr c\<close> is \<open>str(c)\<close> on the cells whose text depends on float or timestamp printing.
  Both coercions return a column of the length of their argument, on the same index.
\<close>

record pandas =
  to_datetime :: "string option \<Rightarrow> cell list \<Rightarrow> nat \<Rightarrow> timestamp option"
  to_numeric :: "cell list \<Rightarrow> nat \<Rightarrow> number"
  argsort :: "timestamp list \<Rightarrow> nat list"
  repr :: "cell \<Rightarrow> string"

definition pd_to_datetime :: "pandas \<Rightarrow> string option \<Rightarrow> cell list \<Rightarrow> timestamp option list" where
  "pd_to_datetime lib fmt series = map (to_datetime lib fmt series) [0..<length series]"

definition pd_to_numeric :: "pandas \<Rightarrow> cell list \<Rightarrow> number list" where
  "pd_to_numeric lib series = map (to_numeric lib series) [0..<length series]"

text \<open>\<open>str(c)\<close> on a cell.\<close>

fun py_str :: "pandas \<Rightarrow> cell \<Rightarrow> string" where
  "py_str lib (Text s) = s"
| "py_str lib (Num (IntVal i)) = int_str i"
| "py_str lib (Num (FloatVal NaN)) = ''nan''"
| "py_str lib (Num (FloatVal (Inf s))) = (if s then ''-inf'' else ''inf'')"
| "py_str lib (Time None) = ''NaT''"
| "py_str lib c = repr lib c"

text \<open>
  A data frame: its column names and its rows in order, each row with its index label.
  A row gives a cell for every name; only the names in \<open>columns\<close> can be looked up.
\<close>

record dataframe =
  columns :: "string list"
  rows :: "(int \<times> (string \<Rightarrow> cell)) list"

datatype error = KeyError string | OverflowError

text \<open>\<open>df[c]\<close> as an expression: the column, or \<open>KeyError\<close>.\<close>

definition getitem :: "dataframe \<Rightarrow> string \<Rightarrow> error + cell list" where
  "getitem df c =
     (if c \<in> set (columns df) then Inr (map (\<lambda>(i, r). r c) (rows df)) else Inl (KeyError c))"

text \<open>\<open>df[c] = values\<close>: the column is replaced, or added after the others.\<close>

definition setitem :: "dataframe \<Rightarrow> string \<Rightarrow> cell list \<Rightarrow> dataframe" where
  "setitem df c vs =
     \<lparr>columns = (if c \<in> set (columns df) then columns df else columns df @ [c]),
      rows = map (\<lambda>((i, r), v). (i, r(c := v))) (zip (rows df) vs)\<rparr>"

text \<open>
  \<open>parse_dataframe\<close> returns what \<open>pd.read_csv\<close> or \<open>pd.read_excel\<close> build from the decoded
  table: the rows of the file in order, labelled by the default index \<open>0, 1, 2, ...\<close>.
\<close>

definition parse_dataframe :: "string list \<Rightarrow> (string \<Rightarrow> cell) list \<Rightarrow> dataframe" where
  "parse_dataframe cols table = \<lparr>columns = cols, rows = zip (map int [0..<length table]) table\<rparr>"

section \<open>Field normalisation\<close>

text \<open>
  An integer of \<open>2^63\<close> or more makes the coerced column \<open>uint64\<close>, and \<open>values * -1\<close> on such a
  column raises \<open>OverflowError\<close>.
\<close>

definition is_uint64 :: "number \<Rightarrow> bool" where
  "is_uint64 v = (case v of IntVal i \<Rightarrow> 2 ^ 63 \<le> i | FloatVal f \<Rightarrow> False)"

definition normalize_amount :: "pandas \<Rightarrow> cell list \<Rightarrow> bool \<Rightarrow> error + number list" where
  "normalize_amount lib series invert =
     (let values = pd_to_numeric lib series
      in if invert then
           (if list_ex is_uint64 values then Inl OverflowError
            else Inr (map times_minus_one values))
         else Inr values)"

definition parse_date :: "pandas \<Rightarrow> cell list \<Rightarrow> string \<Rightarrow> timestamp option list" where
  "parse_date lib series date_format =
     (if strip date_format \<noteq> [] then pd_to_datetime lib (Some date_format) series
      else pd_to_datetime lib None series)"

section \<open>Rendering\<close>

record ofx_meta =
  bank_id :: string
  account_id :: string
  account_type :: string
  currency :: string
  org :: string
  fid :: string

text \<open>
  A row that \<open>dropna\<close> keeps, with the values of its \<open>__date\<close> and \<open>__amount\<close> cells.
\<close>

record txrow =
  row_label :: int
  row_cells :: "string \<Rightarrow> cell"
  row_date :: timestamp
  row_amount :: number

text \<open>
  \<open>df.dropna(subset=["__date", "__amount"])\<close>: the rows whose \<open>__date\<close> is \<open>NaT\<close> or whose
  \<open>__amount\<close> is NaN are left out; the others keep their order and their labels.
\<close>

definition keep_row :: "int \<times> (string \<Rightarrow> cell) \<Rightarrow> txrow list" where
  "keep_row ir =
     (case (snd ir ''__date'', snd ir ''__amount'') of
        (Time (Some t), Num a) \<Rightarrow>
          if is_nan a then []
          else [\<lparr>row_label = fst ir, row_cells = snd ir, row_date = t, row_amount = a\<rparr>]
      | _ \<Rightarrow> [])"

definition dropna :: "dataframe \<Rightarrow> txrow list" where
  "dropna df = concat (map keep_row (rows df))"

text \<open>\<open>df.sort_values("__date")\<close>: the rows taken in the order the library's sort gives.\<close>

definition sort_values :: "pandas \<Rightarrow> txrow list \<Rightarrow> txrow list" where
  "sort_values lib rs = map (\<lambda>k. rs ! k) (argsort lib (map row_date rs))"

text \<open>\<open>if memo_col\<close> on an optional string: \<open>None\<close> and the empty string are false.\<close>

fun truthy :: "string option \<Rightarrow> bool" where
  "truthy None = False"
| "truthy (Some c) = (c \<noteq> [])"

text \<open>\<open>str(row[c]).strip()\<close>, where \<open>row[c]\<close> raises \<open>KeyError\<close> on a name that is no column.\<close>

definition row_text :: "pandas \<Rightarrow> string list \<Rightarrow> txrow \<Rightarrow> string \<Rightarrow> error + string" where
  "row_text lib cols row c =
     (if c \<in> set cols then Inr (strip (py_str lib (row_cells row c))) else Inl (KeyError c))"

text \<open>\<open>str(row[col]).strip() if col else dflt\<close>.\<close>

definition optional_text ::
  "pandas \<Rightarrow> string list \<Rightarrow> txrow \<Rightarrow> string option \<Rightarrow> string \<Rightarrow> error + string" where
  "optional_text lib cols row col dflt =
     (case col of
        None \<Rightarrow> Inr dflt
      | Some c \<Rightarrow> if truthy col then row_text lib cols row c else Inr dflt)"

text \<open>The eight lines that one pass of the loop appends.\<close>

definition stmttrn_lines :: "int \<Rightarrow> timestamp \<Rightarrow> pyfloat \<Rightarrow> string \<Rightarrow> string \<Rightarrow> string list" where
  "stmttrn_lines idx when amount name memo =
     (let fitid = generate_fitid idx when amount memo;
          trn_type = (if ge_zero amount then ''CREDIT'' else ''DEBIT'')
      in [''          <STMTTRN>'',
          ''            <TRNTYPE>'' @ trn_type,
          ''            <DTPOSTED>'' @ fmt_ymd when,
          ''            <TRNAMT>'' @ format_2f amount,
          ''            <FITID>'' @ fitid,
          ''            <NAME>'' @ (if name \<noteq> [] then name else ''Transaction''),
          ''            <MEMO>'' @ memo,
          ''          </STMTTRN>''])"

definition loop_body ::
  "pandas \<Rightarrow> string list \<Rightarrow> string option \<Rightarrow> string option \<Rightarrow> txrow \<Rightarrow> error + string list" where
  "loop_body lib cols name_col memo_col row =
     (case optional_text lib cols row memo_col [] of
        Inl e \<Rightarrow> Inl e
      | Inr memo \<Rightarrow>
          (case optional_text lib cols row name_col memo of
             Inl e \<Rightarrow> Inl e
           | Inr name \<Rightarrow>
               Inr (stmttrn_lines (row_label row) (row_date row) (to_float (row_amount row))
                      name memo)))"

fun loop ::
  "pandas \<Rightarrow> string list \<Rightarrow> string option \<Rightarrow> string option \<Rightarrow> txrow list \<Rightarrow> error + string list"
  where
  "loop lib cols name_col memo_col [] = Inr []"
| "loop lib cols name_col memo_col (row # later) =
     (case loop_body lib cols name_col memo_col row of
        Inl e \<Rightarrow> Inl e
      | Inr block \<Rightarrow>
          (case loop lib cols name_col memo_col later of
             Inl e \<Rightarrow> Inl e
           | Inr rest \<Rightarrow> Inr (block @ rest)))"

definition header_lines :: "ofx_meta \<Rightarrow> timestamp \<Rightarrow> timestamp \<Rightarrow> timestamp \<Rightarrow> string list" where
  "header_lines meta now start_date end_date =
     [''OFXHEADER:100'',
      ''DATA:OFXSGML'',
      ''VERSION:102'',
      ''SECURITY:NONE'',
      ''ENCODING:USASCII'',
      ''CHARSET:1252'',
      ''COMPRESSION:NONE'',
      ''OLDFILEUID:NONE'',
      ''NEWFILEUID:NONE'',
      [],
      ''<OFX>'',
      ''  <SIGNONMSGSRSV1>'',
      ''    <SONRS>'',
      ''      <STATUS>'',
      ''        <CODE>0'',
      ''        <SEVERITY>INFO'',
      ''      </STATUS>'',
      ''      <DTSERVER>'' @ fmt_ymdhms now,
      ''      <LANGUAGE>ENG'',
      ''      <FI>'',
      ''        <ORG>'' @ org meta,
      ''        <FID>'' @ fid meta,
      ''      </FI>'',
      ''    </SONRS>'',
      ''  </SIGNONMSGSRSV1>'',
      ''  <BANKMSGSRSV1>'',
      ''    <STMTTRNRS>'',
      ''      <TRNUID>1'',
      ''      <STATUS>'',
      ''        <CODE>0'',
      ''        <SEVERITY>INFO'',
      ''      </STATUS>'',
      ''      <STMTRS>'',
      ''        <CURDEF>'' @ currency meta,
      ''        <BANKACCTFROM>'',
      ''          <BANKID>'' @ bank_id meta,
      ''          <ACCTID>'' @ account_id meta,
      ''          <ACCTTYPE>'' @ account_type meta,
      ''        </BANKACCTFROM>'',
      ''        <BANKTRANLIST>'',
      ''          <DTSTART>'' @ fmt_ymd start_date,
      ''          <DTEND>'' @ fmt_ymd end_date]"

definition footer_lines :: "timestamp \<Rightarrow> string list" where
  "footer_lines end_date =
     [''        </BANKTRANLIST>'',
      ''        <LEDGERBAL>'',
      ''          <BALAMT>0.00'',
      ''          <DTASOF>'' @ fmt_ymd end_date,
      ''        </LEDGERBAL>'',
      ''      </STMTRS>'',
      ''    </STMTTRNRS>'',
      ''  </BANKMSGSRSV1>'',
      ''</OFX>'']"

text \<open>\<open>"\n".join(lines)\<close>.\<close>

fun join_lines :: "string list \<Rightarrow> string" where
  "join_lines [] = []"
| "join_lines [l] = l"
| "join_lines (l # m # ls) = l @ [CHR 0x0A] @ join_lines (m # ls)"

text \<open>
  Lines 57 to 59: the frame with the columns \<open>__date\<close> and \<open>__amount\<close> set, or the
  \<open>KeyError\<close> of \<open>df[date_col]\<close> or of \<open>df[amount_col]\<close>, or the \<open>OverflowError\<close> of the
  inversion. The amount column is looked up in the frame that already has \<open>__date\<close>.
\<close>

definition normalized_frame ::
  "pandas \<Rightarrow> dataframe \<Rightarrow> string \<Rightarrow> string \<Rightarrow> bool \<Rightarrow> string \<Rightarrow> error + dataframe" where
  "normalized_frame lib df date_col amount_col invert_amount date_format =
     (case getitem df date_col of
        Inl e \<Rightarrow> Inl e
      | Inr dates \<Rightarrow>
          (let df1 = setitem df ''__date'' (map Time (parse_date lib dates date_format))
           in case getitem df1 amount_col of
                Inl e \<Rightarrow> Inl e
              | Inr amounts \<Rightarrow>
                  (case normalize_amount lib amounts invert_amount of
                     Inl e \<Rightarrow> Inl e
                   | Inr values \<Rightarrow> Inr (setitem df1 ''__amount'' (map Num values)))))"

text \<open>The rows the loop of line 112 runs over: after \<open>dropna\<close> and \<open>sort_values\<close>.\<close>

definition transactions ::
  "pandas \<Rightarrow> dataframe \<Rightarrow> string \<Rightarrow> string \<Rightarrow> bool \<Rightarrow> string \<Rightarrow> error + txrow list" where
  "transactions lib df date_col amount_col invert_amount date_format =
     (case normalized_frame lib df date_col amount_col invert_amount date_format of
        Inl e \<Rightarrow> Inl e
      | Inr df2 \<Rightarrow> Inr (sort_values lib (dropna df2)))"

text \<open>
  Lines 64 and 65, and the \<open>datetime.now()\<close> of line 85. \<open>clock k\<close> is what call number \<open>k\<close>
  of \<open>datetime.now()\<close> returns during this run: an empty frame reads the clock for the start
  date, again for the end date, and a third time for \<open>DTSERVER\<close>; a frame with rows reads it
  once, for \<open>DTSERVER\<close>. The result is (start date, end date, server time).
\<close>

definition statement_dates ::
  "(nat \<Rightarrow> timestamp) \<Rightarrow> txrow list \<Rightarrow> timestamp \<times> timestamp \<times> timestamp" where
  "statement_dates clock txs =
     (case txs of
        [] \<Rightarrow> (clock 0, clock 1, clock 2)
      | r # rs \<Rightarrow> (fold min (map row_date rs) (row_date r),
                   fold max (map row_date rs) (row_date r), clock 0))"

text \<open>The list \<open>lines\<close> as it is when line 146 joins it.\<close>

definition render_ofx_lines ::
  "pandas \<Rightarrow> (nat \<Rightarrow> timestamp) \<Rightarrow> dataframe \<Rightarrow> ofx_meta \<Rightarrow> string \<Rightarrow> string \<Rightarrow>
   string option \<Rightarrow> string option \<Rightarrow> bool \<Rightarrow> string \<Rightarrow> error + string list" where
  "render_ofx_lines lib clock df meta date_col amount_col name_col memo_col invert_amount
     date_format =
     (case transactions lib df date_col amount_col invert_amount date_format of
        Inl e \<Rightarrow> Inl e
      | Inr txs \<Rightarrow>
          (case statement_dates clock txs of
             (start_date, end_date, now) \<Rightarrow>
               (case loop lib (columns df @ [''__date'', ''__amount'']) name_col memo_col txs of
                  Inl e \<Rightarrow> Inl e
                | Inr body \<Rightarrow>
                    Inr (header_lines meta now start_date end_date @ body
                         @ footer_lines end_date))))"

definition render_ofx ::
  "pandas \<Rightarrow> (nat \<Rightarrow> timestamp) \<Rightarrow> dataframe \<Rightarrow> ofx_meta \<Rightarrow> string \<Rightarrow> string \<Rightarrow>
   string option \<Rightarrow> string option \<Rightarrow> bool \<Rightarrow> string \<Rightarrow> error + string" where
  "render_ofx lib clock df meta date_col amount_col name_col memo_col invert_amount date_format =
     (case render_ofx_lines lib clock df meta date_col amount_col name_col memo_col
             invert_amount date_format of
        Inl e \<Rightarrow> Inl e
      | Inr lines \<Rightarrow> Inr (join_lines lines))"

section \<open>What the library is assumed to do\<close>

text \<open>
  \<open>sorts lib\<close>: the order the library's sort returns is a rearrangement of the positions and
  takes the keys in non-decreasing order. \<open>sorts_stably lib\<close>: it is moreover the stable one,
  the order of a merge sort (\<open>kind="stable"\<close>), where equal keys keep their positions' order.
\<close>

definition stable_argsort :: "timestamp list \<Rightarrow> nat list" where
  "stable_argsort ks = map snd (sort_key fst (zip ks [0..<length ks]))"

definition sorts :: "pandas \<Rightarrow> bool" where
  "sorts lib = (\<forall>ks. mset (argsort lib ks) = mset [0..<length ks]
                     \<and> sorted (map (\<lambda>k. ks ! k) (argsort lib ks)))"

definition sorts_stably :: "pandas \<Rightarrow> bool" where
  "sorts_stably lib = (\<forall>ks. argsort lib ks = stable_argsort ks)"


subsection \<open>A small instance of the library, to run examples\<close>

text \<open>
  \<open>simple_lib\<close> coerces each cell on its own: a timestamp cell and a text \<open>YYYY-MM-DD\<close> give
  that date, a number cell gives that number, a text \<open>[-]ddd\<close> gives that integer and a text
  \<open>[-]ddd.ddd\<close> its value (taken exactly), anything else is \<open>NaT\<close> or NaN; the sort is the
  stable one. Other inputs of pandas (other date formats, numbers as dates, exponents, the
  common dtype of a column) are outside this instance, and it prints no float and no
  timestamp.
\<close>

definition digit_val :: "char \<Rightarrow> nat" where
  "digit_val c = of_char c - 48"

definition digits_val :: "string \<Rightarrow> nat" where
  "digits_val ds = foldl (\<lambda>a c. 10 * a + digit_val c) 0 ds"

definition all_digits :: "string \<Rightarrow> bool" where
  "all_digits ds = (ds \<noteq> [] \<and> list_all is_digit ds)"

fun iso_date :: "string \<Rightarrow> timestamp option" where
  "iso_date [y1, y2, y3, y4, h1, m1, m2, h2, d1, d2] =
     (if h1 = CHR ''-'' \<and> h2 = CHR ''-'' \<and> all_digits [y1, y2, y3, y4, m1, m2, d1, d2]
      then Some (digits_val [y1, y2, y3, y4], digits_val [m1, m2], digits_val [d1, d2], 0)
      else None)"
| "iso_date s = None"

definition simple_to_datetime :: "string option \<Rightarrow> cell list \<Rightarrow> nat \<Rightarrow> timestamp option" where
  "simple_to_datetime fmt s k =
     (case s ! k of Time d \<Rightarrow> d | Text t \<Rightarrow> iso_date t | Num v \<Rightarrow> None)"

definition decimal_text :: "string \<Rightarrow> number" where
  "decimal_text s =
     (let neg = (s \<noteq> [] \<and> hd s = CHR ''-'');
          u = (if neg then tl s else s);
          ip = takeWhile (\<lambda>c. c \<noteq> CHR ''.'') u;
          fp = dropWhile (\<lambda>c. c \<noteq> CHR ''.'') u
      in if all_digits ip \<and> fp = [] then IntVal (if neg then - int (digits_val ip) else int (digits_val ip))
         else if all_digits ip \<and> fp \<noteq> [] \<and> all_digits (tl fp) then
           (let v = of_nat (digits_val ip) + of_nat (digits_val (tl fp)) / 10 ^ length (tl fp)
            in FloatVal (if neg then float_neg (Finite v) else Finite v))
         else FloatVal NaN)"

definition simple_to_numeric :: "cell list \<Rightarrow> nat \<Rightarrow> number" where
  "simple_to_numeric s k =
     (case s ! k of Num v \<Rightarrow> v | Text t \<Rightarrow> decimal_text t | Time d \<Rightarrow> FloatVal NaN)"

definition simple_lib :: pandas where
  "simple_lib = \<lparr>to_datetime = simple_to_datetime, to_numeric = simple_to_numeric,
                  argsort = stable_argsort, repr = (\<lambda>c. [])\<rparr>"

section \<open>Notions used to state the properties\<close>

text \<open>
  A text with exactly two fractional digits: an optional minus sign, at least one digit, a
  point, and two digits.
\<close>

definition two_decimals :: "string \<Rightarrow> bool" where
  "two_decimals s =
     (let u = (if s \<noteq> [] \<and> hd s = CHR ''-'' then tl s else s);
          ip = takeWhile is_digit u;
          fp = dropWhile is_digit u
      in ip \<noteq> [] \<and> (case fp of [p, a, b] \<Rightarrow> p = CHR ''.'' \<and> is_digit a \<and> is_digit b | _ \<Rightarrow> False))"


text \<open>
  The frame without the row at position \<open>k\<close>; the other rows keep their order and their
  index labels, as after \<open>df.drop(df.index[k])\<close>.
\<close>

definition delete_row :: "nat \<Rightarrow> dataframe \<Rightarrow> dataframe" where
  "delete_row k df = df\<lparr>rows := take k (rows df) @ drop (Suc k) (rows df)\<rparr>"



definition line_break :: "char \<Rightarrow> bool" where
  "line_break c = (c \<in> set [CHR 0x0A, CHR 0x0B, CHR 0x0C, CHR 0x0D, CHR 0x1C, CHR 0x1D,
                               CHR 0x1E, CHR 0x85])"

definition one_line :: "string \<Rightarrow> bool" where
  "one_line s = list_all (\<lambda>c. \<not> line_break c) s"


subsection \<open>Example data\<close>

text \<open>
  A row with every cell missing, and the rows of the examples: two rows of a statement, a
  subtotal row whose amount is \<open>N/A\<close>, two rows of the same day at 18:00 and at 09:00, and
  rows whose amount is infinite or the float negative zero.
\<close>

definition blank_row :: "string \<Rightarrow> cell" where
  "blank_row = (\<lambda>c. Num (FloatVal NaN))"

definition ex_row_a :: "string \<Rightarrow> cell" where
  "ex_row_a = blank_row(''date'' := Text ''2024-01-05'', ''amt'' := Text ''100'',
                        ''memo'' := Text ''Coffee shop'')"

definition ex_row_b :: "string \<Rightarrow> cell" where
  "ex_row_b = blank_row(''date'' := Text ''2024-01-03'', ''amt'' := Text ''-50.5'')"


definition ex_row_evening :: "string \<Rightarrow> cell" where
  "ex_row_evening = blank_row(''date'' := Time (Some (2024, 1, 5, 64800000000000)),
                              ''amt'' := Num (IntVal 1))"

definition ex_row_morning :: "string \<Rightarrow> cell" where
  "ex_row_morning = blank_row(''date'' := Time (Some (2024, 1, 5, 32400000000000)),
                              ''amt'' := Num (IntVal 2))"

definition ex_row_inf :: "string \<Rightarrow> cell" where
  "ex_row_inf = blank_row(''date'' := Text ''2024-01-05'', ''amt'' := Num (FloatVal (Inf False)))"

definition ex_row_negzero :: "string \<Rightarrow> cell" where
  "ex_row_negzero = blank_row(''date'' := Text ''2024-01-05'', ''amt'' := Num (FloatVal NegZero))"

definition ex_columns :: "string list" where
  "ex_columns = [''date'', ''amt'', ''memo'']"

definition ex_meta :: ofx_meta where
  "ex_meta = \<lparr>bank_id = ''0000'', account_id = ''000000000'', account_type = ''CHECKING'',
              currency = ''USD'', org = ''UNIMATRIX'', fid = ''0000''\<rparr>"

text \<open>
  Clocks: one that stands at noon of 1 June 2024, one that stands a second later, and one
  whose first reading is the last microsecond of 2024 and whose later readings fall on
  1 January 2025.
\<close>

definition ex_clock :: "nat \<Rightarrow> timestamp" where
  "ex_clock k = (2024, 6, 1, 43200000000000)"

definition ex_clock_later :: "nat \<Rightarrow> timestamp" where
  "ex_clock_later k = (2024, 6, 1, 43201000000000)"

definition ex_clock_midnight :: "nat \<Rightarrow> timestamp" where
  "ex_clock_midnight k = (if k = 0 then (2024, 12, 31, 86399999999000) else (2025, 1, 1, k))"


section \<open>The formatting functions\<close>

lemma digit_char_is_digit: "is_digit (digit_char d)"
proof -
  have "d mod 10 < length ''0123456789''" by simp
  then have "''0123456789'' ! (d mod 10) \<in> set ''0123456789''" by (rule nth_mem)
  then show ?thesis by (simp only: is_digit_def digit_char_def)
qed

lemma dec_digits: "list_all is_digit (dec n)"
proof (induction n rule: dec.induct)
  case (1 n)
  show ?case
  proof (cases "n < 10")
    case True
    then show ?thesis by (subst dec.simps) (simp add: digit_char_is_digit)
  next
    case False
    with 1 show ?thesis by (subst dec.simps) (simp add: digit_char_is_digit)
  qed
qed

lemma dec_nonempty: "dec n \<noteq> []"
  by (subst dec.simps) simp

lemma dec_length_1: "n < 10 \<Longrightarrow> length (dec n) = 1"
  by (subst dec.simps) simp

lemma dec_length_2: "10 \<le> n \<Longrightarrow> n < 100 \<Longrightarrow> length (dec n) = 2"
  by (subst dec.simps) (simp add: dec_length_1)

lemma dec_length_4: "1000 \<le> n \<Longrightarrow> n < 10000 \<Longrightarrow> length (dec n) = 4"
proof -
  assume a: "1000 \<le> n" "n < 10000"
  have 3: "length (dec (n div 10)) = 3"
  proof -
    have "length (dec (n div 10 div 10)) = 2" using a by (intro dec_length_2) auto
    then show ?thesis using a by (subst dec.simps) simp
  qed
  show ?thesis using a 3 by (subst dec.simps) simp
qed

lemma is_digit_zero: "is_digit CHR ''0''"
  by (simp add: is_digit_def)

lemma zpad_digits: "list_all is_digit (zpad w n)"
  using dec_digits [of n] by (auto simp: zpad_def list_all_iff is_digit_zero)

lemma zpad2_length: "n < 100 \<Longrightarrow> length (zpad 2 n) = 2"
  by (cases "n < 10") (simp_all add: zpad_def dec_length_1 dec_length_2)

lemma zpad4_length: "n < 10000 \<Longrightarrow> length (zpad 4 n) \<ge> 4"
  by (simp add: zpad_def)

lemma zpad_length: "length (zpad w n) = max w (length (dec n))"
  by (simp add: zpad_def)


lemma digit_not_space: "is_digit c \<Longrightarrow> c \<noteq> CHR '' ''"
  by (auto simp: is_digit_def)

lemma remove_spaces_digits: "list_all is_digit s \<Longrightarrow> remove_spaces s = s"
  by (induction s) (auto simp: remove_spaces_def digit_not_space)

lemma remove_spaces_append: "remove_spaces (a @ b) = remove_spaces a @ remove_spaces b"
  by (simp add: remove_spaces_def)

lemma fmt_ymd_digits: "list_all is_digit (fmt_ymd t)"
  by (simp add: fmt_ymd_def zpad_digits dec_digits)

lemma fmt_ymd_length: "valid_date t \<Longrightarrow> length (fmt_ymd t) = 8"
proof -
  assume v: "valid_date t"
  have y: "length (dec (ts_year t)) = 4"
    using v by (intro dec_length_4) (simp_all add: valid_date_def)
  have m: "length (zpad 2 (ts_month t)) = 2"
    using v by (intro zpad2_length) (simp add: valid_date_def)
  have d: "length (zpad 2 (ts_day t)) = 2"
    using v by (intro zpad2_length) (simp add: valid_date_def)
  show ?thesis by (simp add: fmt_ymd_def y m d)
qed

lemma remove_spaces_minus: "remove_spaces (CHR ''-'' # s) = CHR ''-'' # remove_spaces s"
  by (simp add: remove_spaces_def)

lemma remove_spaces_dot: "remove_spaces (CHR ''.'' # s) = CHR ''.'' # remove_spaces s"
  by (simp add: remove_spaces_def)

lemma remove_spaces_dec: "remove_spaces (dec n) = dec n"
  by (rule remove_spaces_digits) (rule dec_digits)

lemma remove_spaces_zpad: "remove_spaces (zpad w n) = zpad w n"
  by (rule remove_spaces_digits) (rule zpad_digits)

lemma remove_spaces_fmt_ymd: "remove_spaces (fmt_ymd t) = fmt_ymd t"
  by (rule remove_spaces_digits) (rule fmt_ymd_digits)

lemma remove_spaces_int_str: "remove_spaces (int_str i) = int_str i"
  by (simp add: int_str_def remove_spaces_minus remove_spaces_dec)

lemma remove_spaces_hundredths: "remove_spaces (hundredths n) = hundredths n"
  by (simp add: hundredths_def remove_spaces_append remove_spaces_dot remove_spaces_dec
        remove_spaces_zpad)

lemma remove_spaces_format_2f: "remove_spaces (format_2f a) = format_2f a"
proof (cases a)
  case (Finite v)
  then show ?thesis
    by (simp add: remove_spaces_minus remove_spaces_hundredths)
next
  case NegZero
  then show ?thesis by (simp add: remove_spaces_def)
next
  case (Inf s)
  then show ?thesis by (simp add: remove_spaces_def)
next
  case NaN
  then show ?thesis by (simp add: remove_spaces_def)
qed

lemma zpad2_shape: "n < 100 \<Longrightarrow> \<exists>a b. zpad 2 n = [a, b] \<and> is_digit a \<and> is_digit b"
proof -
  assume "n < 100"
  then have "length (zpad 2 n) = 2" by (rule zpad2_length)
  then obtain a b where ab: "zpad 2 n = [a, b]"
    by (metis (no_types, opaque_lifting) One_nat_def Suc_1 length_0_conv length_Suc_conv)
  with zpad_digits [of 2 n] show ?thesis by simp
qed

lemma two_decimals_hundredths: "two_decimals (hundredths n)"
proof -
  obtain a b where ab: "zpad 2 (n mod 100) = [a, b]" "is_digit a" "is_digit b"
    using zpad2_shape [of "n mod 100"] by auto
  let ?ip = "dec (n div 100)"
  have h: "hundredths n = ?ip @ CHR ''.'' # [a, b]" by (simp add: hundredths_def ab)
  have nd: "\<not> is_digit CHR ''.''" by (simp add: is_digit_def)
  have nm: "\<not> is_digit CHR ''-''" by (simp add: is_digit_def)
  have all: "\<forall>c\<in>set ?ip. is_digit c" using dec_digits [of "n div 100"] by (simp add: list_all_iff)
  have tw: "takeWhile is_digit (?ip @ CHR ''.'' # [a, b]) = ?ip"
    using all nd by (simp add: takeWhile_append2)
  have dw: "dropWhile is_digit (?ip @ CHR ''.'' # [a, b]) = CHR ''.'' # [a, b]"
    using all nd by (simp add: dropWhile_append2)
  have hdne: "hd (?ip @ CHR ''.'' # [a, b]) \<noteq> CHR ''-''"
    using all nm dec_nonempty [of "n div 100"] by (cases ?ip) auto
  show ?thesis
    unfolding two_decimals_def h Let_def using tw dw hdne ab dec_nonempty [of "n div 100"] by simp
qed

lemma two_decimals_format_2f: "two_decimals (format_2f (Finite v))"
proof (cases "v < 0")
  case False
  then show ?thesis by (simp add: two_decimals_hundredths)
next
  case True
  have "two_decimals (CHR ''-'' # s) = two_decimals s" if "s \<noteq> []" "hd s \<noteq> CHR ''-''" for s
    using that by (simp add: two_decimals_def)
  moreover have "hundredths n \<noteq> []" for n by (simp add: hundredths_def)
  moreover have "hd (hundredths n) \<noteq> CHR ''-''" for n
    using dec_digits [of "n div 100"] dec_nonempty [of "n div 100"]
    by (cases "dec (n div 100)") (auto simp: hundredths_def is_digit_def)
  ultimately show ?thesis using True by (simp add: two_decimals_hundredths)
qed

lemma generate_fitid_eq:
  "generate_fitid idx when amount memo =
     fmt_ymd when @ ''-'' @ format_2f amount @ ''-'' @ int_str idx @
       (if memo = [] then [] else ''-'' @ remove_spaces (take 20 (strip memo)))"
  by (simp add: generate_fitid_def Let_def remove_spaces_append remove_spaces_minus
        remove_spaces_fmt_ymd remove_spaces_format_2f remove_spaces_int_str)

section \<open>Transaction identifiers: what \<open>generate_fitid\<close> returns\<close>

text \<open>
  Claim C3, as the code has it. For every source index, date, amount and memo,
  \<open>generate_fitid\<close> returns the date as \<open>%Y%m%d\<close>, the amount as \<open>.2f\<close> and the index,
  joined by \<open>-\<close>; when the memo is not the empty string, a further \<open>-\<close> and the first 20
  characters of the stripped memo follow, with the space characters (U+0020) of that segment
  removed. The result has no space character. A date with a four-digit year is rendered as
  eight digits, and a finite amount has exactly two fractional digits. Whitespace other than
  U+0020 inside the memo is kept, and an infinite or NaN amount has no fractional digits.
\<close>

theorem generate_fitid_format:
  "generate_fitid idx when amount memo =
     fmt_ymd when @ ''-'' @ format_2f amount @ ''-'' @ int_str idx @
       (if memo = [] then [] else ''-'' @ remove_spaces (take 20 (strip memo)))
   \<and> CHR '' '' \<notin> set (generate_fitid idx when amount memo)
   \<and> (valid_date when \<longrightarrow> length (fmt_ymd when) = 8 \<and> list_all is_digit (fmt_ymd when))
   \<and> (\<forall>v. amount = Finite v \<longrightarrow> two_decimals (format_2f amount))"
proof -
  have eq: "generate_fitid idx when amount memo =
     fmt_ymd when @ ''-'' @ format_2f amount @ ''-'' @ int_str idx @
       (if memo = [] then [] else ''-'' @ remove_spaces (take 20 (strip memo)))"
    by (rule generate_fitid_eq)
  have nosp: "CHR '' '' \<notin> set (generate_fitid idx when amount memo)"
    by (simp add: generate_fitid_def Let_def remove_spaces_def)
  show ?thesis
    using eq nosp fmt_ymd_length fmt_ymd_digits two_decimals_format_2f by blast
qed

text \<open>The theorem at index 3, 5 January 2024, amount 12.5 and memo \<open>"  coffee shop  "\<close>.\<close>

theorem generate_fitid_format_witness:
  "valid_date (2024, 1, 5, 0)
   \<and> generate_fitid 3 (2024, 1, 5, 0) (Finite (25 / 2)) ''  coffee shop  ''
       = ''20240105-12.50-3-coffeeshop''
   \<and> length (fmt_ymd (2024, 1, 5, 0)) = 8
   \<and> two_decimals (format_2f (Finite (25 / 2)))"
proof -
  have v: "valid_date (2024, 1, 5, 0)"
    by (simp add: valid_date_def ts_year_def ts_month_def ts_day_def)
  have e: "generate_fitid 3 (2024, 1, 5, 0) (Finite (25 / 2)) ''  coffee shop  ''
       = ''20240105-12.50-3-coffeeshop''"
    by code_simp
  show ?thesis
    using v e generate_fitid_format [of 3 "(2024, 1, 5, 0)" "Finite (25 / 2)" "''  coffee shop  ''"]
    by blast
qed

text \<open>
  Claim C3 as the specification words it fails: a tab inside the memo \<open>"a\tb"\<close> is whitespace
  and stays in the identifier, and the amount \<open>inf\<close> is rendered without decimal digits.
\<close>

theorem generate_fitid_keeps_tab:
  "generate_fitid 0 (2024, 1, 5, 0) (Finite (25 / 2)) [CHR ''a'', CHR 0x09, CHR ''b'']
     = ''20240105-12.50-0-a'' @ [CHR 0x09] @ ''b''
   \<and> is_space (CHR 0x09)
   \<and> generate_fitid 0 (2024, 1, 5, 0) (Inf False) [] = ''20240105-inf-0''"
  by code_simp

section \<open>Sorting, and the blocks the loop appends\<close>

lemma insort_key_map:
  "insort_key f (g x) (map g xs) = map g (insort_key (\<lambda>y. f (g y)) x xs)"
  by (induction xs) simp_all

lemma sort_key_map: "sort_key f (map g xs) = map g (sort_key (\<lambda>y. f (g y)) xs)"
  by (induction xs) (simp_all add: insort_key_map)

lemma insort_key_cong_set:
  "f x = g x \<Longrightarrow> (\<And>y. y \<in> set xs \<Longrightarrow> f y = g y) \<Longrightarrow> insort_key f x xs = insort_key g x xs"
  by (induction xs) simp_all

lemma sort_key_cong_set:
  "(\<And>y. y \<in> set xs \<Longrightarrow> f y = g y) \<Longrightarrow> sort_key f xs = sort_key g xs"
proof (induction xs)
  case Nil
  then show ?case by simp
next
  case (Cons x xs)
  then have "sort_key f xs = sort_key g xs" by simp
  moreover have "insort_key f x (sort_key g xs) = insort_key g x (sort_key g xs)"
    using Cons.prems by (intro insort_key_cong_set) simp_all
  ultimately show ?case by simp
qed

lemma zip_upt_nth: "zip ks [0..<length ks] = map (\<lambda>k. (ks ! k, k)) [0..<length ks]"
  by (rule nth_equalityI) simp_all

lemma stable_argsort_eq: "stable_argsort ks = sort_key (\<lambda>k. ks ! k) [0..<length ks]"
proof -
  have "sort_key fst (map (\<lambda>k. (ks ! k, k)) [0..<length ks])
        = map (\<lambda>k. (ks ! k, k)) (sort_key (\<lambda>k. ks ! k) [0..<length ks])"
    using sort_key_map [of fst "\<lambda>k. (ks ! k, k)" "[0..<length ks]"] by simp
  then show ?thesis
    by (simp add: stable_argsort_def zip_upt_nth comp_def)
qed

lemma sorts_stably_sorts: "sorts_stably lib \<Longrightarrow> sorts lib"
  by (simp add: sorts_stably_def sorts_def stable_argsort_eq)

lemma sort_values_stable:
  assumes "sorts_stably lib"
  shows "sort_values lib rs = sort_key row_date rs"
proof -
  let ?n = "length rs"
  have "argsort lib (map row_date rs) = sort_key (\<lambda>k. map row_date rs ! k) [0..<?n]"
    using assms by (simp add: sorts_stably_def stable_argsort_eq)
  also have "\<dots> = sort_key (\<lambda>k. row_date (rs ! k)) [0..<?n]"
    by (rule sort_key_cong_set) simp
  finally have "sort_values lib rs = map (\<lambda>k. rs ! k) (sort_key (\<lambda>k. row_date (rs ! k)) [0..<?n])"
    by (simp add: sort_values_def)
  also have "\<dots> = sort_key row_date (map (\<lambda>k. rs ! k) [0..<?n])"
    by (rule sort_key_map [symmetric])
  also have "map (\<lambda>k. rs ! k) [0..<?n] = rs" by (rule map_nth)
  finally show ?thesis .
qed

lemma sort_values_mset:
  assumes "sorts lib"
  shows "mset (sort_values lib rs) = mset rs"
proof -
  have "mset (argsort lib (map row_date rs)) = mset [0..<length rs]"
    using assms by (simp add: sorts_def)
  then have "image_mset (\<lambda>k. rs ! k) (mset (argsort lib (map row_date rs)))
             = image_mset (\<lambda>k. rs ! k) (mset [0..<length rs])" by simp
  then have "mset (map (\<lambda>k. rs ! k) (argsort lib (map row_date rs)))
             = mset (map (\<lambda>k. rs ! k) [0..<length rs])" by simp
  then show ?thesis by (simp add: sort_values_def map_nth)
qed

lemma sort_values_sorted:
  assumes "sorts lib"
  shows "sorted (map row_date (sort_values lib rs))"
proof -
  let ?p = "argsort lib (map row_date rs)"
  have m: "mset ?p = mset [0..<length rs]" using assms by (simp add: sorts_def)
  have "set ?p = set [0..<length rs]" using m by (rule mset_eq_setD)
  then have inr: "\<forall>k\<in>set ?p. k < length rs" by simp
  have "map row_date (sort_values lib rs) = map (\<lambda>k. map row_date rs ! k) ?p"
    using inr by (simp add: sort_values_def)
  moreover have "sorted (map (\<lambda>k. map row_date rs ! k) ?p)"
    using assms by (simp add: sorts_def)
  ultimately show ?thesis by simp
qed

lemma ts_date_mono: "t \<le> u \<Longrightarrow> ts_date t \<le> ts_date (u::timestamp)"
  by (cases t, cases u) (auto simp: ts_date_def ts_year_def ts_month_def ts_day_def less_eq_prod_def less_prod_def)

lemma sorted_ts_date: "sorted (map row_date rs) \<Longrightarrow> sorted (map (ts_date \<circ> row_date) rs)"
  by (induction rs) (auto simp: ts_date_mono)

lemma loop_blocks:
  "loop lib cols nc mc txs = Inr body \<Longrightarrow>
   \<exists>blocks. body = concat blocks \<and> list_all2 (\<lambda>r b. loop_body lib cols nc mc r = Inr b) txs blocks"
proof (induction txs arbitrary: body)
  case Nil
  then show ?case by simp
next
  case (Cons r rs)
  from Cons.prems obtain b rest where
    b: "loop_body lib cols nc mc r = Inr b" and
    rest: "loop lib cols nc mc rs = Inr rest" and
    body: "body = b @ rest"
    by (auto split: sum.splits)
  from Cons.IH [OF rest] obtain blocks where
    "rest = concat blocks" "list_all2 (\<lambda>r b. loop_body lib cols nc mc r = Inr b) rs blocks"
    by blast
  then have "body = concat (b # blocks) \<and> list_all2 (\<lambda>r b. loop_body lib cols nc mc r = Inr b) (r # rs) (b # blocks)"
    using b body by simp
  then show ?case by blast
qed


lemma optional_text_cases:
  "optional_text lib cols row col dflt = Inr t \<Longrightarrow>
     (\<not> truthy col \<and> t = dflt) \<or> (\<exists>c. col = Some c \<and> c \<noteq> [] \<and> c \<in> set cols \<and> t = strip (py_str lib (row_cells row c)))"
  by (cases col) (auto simp: optional_text_def row_text_def split: if_splits)

lemma loop_body_Inr:
  "loop_body lib cols name_col memo_col row = Inr block \<Longrightarrow>
   \<exists>memo name. optional_text lib cols row memo_col [] = Inr memo
     \<and> optional_text lib cols row name_col memo = Inr name
     \<and> block = stmttrn_lines (row_label row) (row_date row) (to_float (row_amount row)) name memo"
  by (auto simp: loop_body_def split: sum.splits)

lemma stmttrn_nth:
  "stmttrn_lines idx when amount name memo ! 1 = ''            <TRNTYPE>'' @ (if ge_zero amount then ''CREDIT'' else ''DEBIT'')"
  "stmttrn_lines idx when amount name memo ! 2 = ''            <DTPOSTED>'' @ fmt_ymd when"
  "stmttrn_lines idx when amount name memo ! 3 = ''            <TRNAMT>'' @ format_2f amount"
  "stmttrn_lines idx when amount name memo ! 4 = ''            <FITID>'' @ generate_fitid idx when amount memo"
  "stmttrn_lines idx when amount name memo ! 5 = ''            <NAME>'' @ (if name \<noteq> [] then name else ''Transaction'')"
  "stmttrn_lines idx when amount name memo ! 6 = ''            <MEMO>'' @ memo"
  by (simp_all add: stmttrn_lines_def Let_def)

section \<open>The lines of one transaction\<close>

text \<open>
  Claim C8. For every transaction the loop renders: the \<open>MEMO\<close> line carries the memo; when no
  name column is mapped (\<open>name_col\<close> is \<open>None\<close> or empty) the name is the memo; and the
  \<open>NAME\<close> line carries the name, or the literal text \<open>Transaction\<close> when the name is empty,
  which it is in particular when no name column is mapped and the memo is empty.
\<close>

theorem name_defaults_to_memo:
  assumes "loop_body lib cols name_col memo_col row = Inr block"
  shows "\<exists>memo name.
           optional_text lib cols row memo_col [] = Inr memo
         \<and> optional_text lib cols row name_col memo = Inr name
         \<and> block ! 6 = ''            <MEMO>'' @ memo
         \<and> (\<not> truthy name_col \<longrightarrow> name = memo)
         \<and> block ! 5 = ''            <NAME>'' @ (if name = [] then ''Transaction'' else name)"
proof -
  from loop_body_Inr [OF assms] obtain memo name where
    m: "optional_text lib cols row memo_col [] = Inr memo" and
    n: "optional_text lib cols row name_col memo = Inr name" and
    b: "block = stmttrn_lines (row_label row) (row_date row) (to_float (row_amount row)) name memo"
    by blast
  have d: "\<not> truthy name_col \<longrightarrow> name = memo"
    using optional_text_cases [OF n] by auto
  have p6: "block ! 6 = ''            <MEMO>'' @ memo"
    unfolding b by (rule stmttrn_nth)
  have p5: "block ! 5 = ''            <NAME>'' @ (if name = [] then ''Transaction'' else name)"
    unfolding b by (simp add: stmttrn_nth)
  show ?thesis using m n d p6 p5 by blast
qed

text \<open>
  The theorem on a row with memo \<open>Coffee shop\<close> and no name column, and on a row rendered
  with neither a name nor a memo column.
\<close>

theorem name_defaults_to_memo_witness:
  "loop_body simple_lib ex_columns None (Some ''memo'')
     \<lparr>row_label = 0, row_cells = ex_row_a, row_date = (2024, 1, 5, 0), row_amount = IntVal 100\<rparr>
   = Inr (stmttrn_lines 0 (2024, 1, 5, 0) (Finite 100) ''Coffee shop'' ''Coffee shop'')
   \<and> \<not> truthy None
   \<and> stmttrn_lines 0 (2024, 1, 5, 0) (Finite 100) ''Coffee shop'' ''Coffee shop'' ! 5
       = ''            <NAME>Coffee shop''
   \<and> loop_body simple_lib ex_columns None None
     \<lparr>row_label = 1, row_cells = ex_row_b, row_date = (2024, 1, 3, 0), row_amount = IntVal 7\<rparr>
   = Inr (stmttrn_lines 1 (2024, 1, 3, 0) (Finite 7) [] [])
   \<and> stmttrn_lines 1 (2024, 1, 3, 0) (Finite 7) [] [] ! 5 = ''            <NAME>Transaction''"
proof -
  have a: "loop_body simple_lib ex_columns None (Some ''memo'')
     \<lparr>row_label = 0, row_cells = ex_row_a, row_date = (2024, 1, 5, 0), row_amount = IntVal 100\<rparr>
   = Inr (stmttrn_lines 0 (2024, 1, 5, 0) (Finite 100) ''Coffee shop'' ''Coffee shop'')"
    by code_simp
  have b: "loop_body simple_lib ex_columns None None
     \<lparr>row_label = 1, row_cells = ex_row_b, row_date = (2024, 1, 3, 0), row_amount = IntVal 7\<rparr>
   = Inr (stmttrn_lines 1 (2024, 1, 3, 0) (Finite 7) [] [])"
    by code_simp
  have oa: "optional_text simple_lib ex_columns
     \<lparr>row_label = 0, row_cells = ex_row_a, row_date = (2024, 1, 5, 0), row_amount = IntVal 100\<rparr>
     (Some ''memo'') [] = Inr ''Coffee shop''"
    by code_simp
  show ?thesis
    using a b oa name_defaults_to_memo [OF a] name_defaults_to_memo [OF b]
    by (auto simp: optional_text_def)
qed

text \<open>
  Claim C7, as the code has it. The \<open>TRNAMT\<close> line of every transaction carries the amount
  as \<open>.2f\<close>, and the \<open>TRNTYPE\<close> line is \<open>CREDIT\<close> exactly when the amount is \<open>>= 0\<close>. When
  the amount is finite the text has exactly two fractional digits, whatever the precision of
  the value: 12.5 is rendered \<open>12.50\<close>, and zero (the integer 0 or the float +0.0) is
  rendered \<open>0.00\<close> with type \<open>CREDIT\<close>.
\<close>

theorem trnamt_two_decimals:
  assumes "loop_body lib cols name_col memo_col row = Inr block"
  shows "block ! 3 = ''            <TRNAMT>'' @ format_2f (to_float (row_amount row))
       \<and> block ! 1 = ''            <TRNTYPE>''
             @ (if ge_zero (to_float (row_amount row)) then ''CREDIT'' else ''DEBIT'')
       \<and> (\<forall>v. to_float (row_amount row) = Finite v
              \<longrightarrow> two_decimals (format_2f (to_float (row_amount row))))
       \<and> format_2f (Finite (25 / 2)) = ''12.50''
       \<and> format_2f (to_float (IntVal 0)) = ''0.00'' \<and> ge_zero (to_float (IntVal 0))
       \<and> format_2f (Finite 0) = ''0.00'' \<and> ge_zero (Finite 0)"
proof -
  from loop_body_Inr [OF assms] obtain memo name where
    b: "block = stmttrn_lines (row_label row) (row_date row) (to_float (row_amount row)) name memo"
    by blast
  have p3: "block ! 3 = ''            <TRNAMT>'' @ format_2f (to_float (row_amount row))"
    unfolding b by (rule stmttrn_nth)
  have p1: "block ! 1 = ''            <TRNTYPE>''
              @ (if ge_zero (to_float (row_amount row)) then ''CREDIT'' else ''DEBIT'')"
    unfolding b by (rule stmttrn_nth)
  have td: "\<forall>v. to_float (row_amount row) = Finite v
              \<longrightarrow> two_decimals (format_2f (to_float (row_amount row)))"
    using two_decimals_format_2f by metis
  have e1: "format_2f (Finite (25 / 2)) = ''12.50''" by code_simp
  have e2: "format_2f (Finite 0) = ''0.00''" by code_simp
  have z: "to_float (IntVal 0) = Finite 0"
    by (simp add: round_to_double_def excess_bits.simps Let_def)
  have g: "ge_zero (Finite 0)" by simp
  show ?thesis
    unfolding z using p3 p1 td e1 e2 g by (intro conjI) assumption+
qed

text \<open>The theorem on a row whose amount is 12.5.\<close>

theorem trnamt_two_decimals_witness:
  "loop_body simple_lib ex_columns None None
     \<lparr>row_label = 0, row_cells = ex_row_a, row_date = (2024, 1, 5, 0),
      row_amount = FloatVal (Finite (25 / 2))\<rparr>
   = Inr (stmttrn_lines 0 (2024, 1, 5, 0) (Finite (25 / 2)) [] [])
   \<and> stmttrn_lines 0 (2024, 1, 5, 0) (Finite (25 / 2)) [] [] ! 3 = ''            <TRNAMT>12.50''
   \<and> two_decimals (format_2f (Finite (25 / 2)))"
proof -
  have a: "loop_body simple_lib ex_columns None None
     \<lparr>row_label = 0, row_cells = ex_row_a, row_date = (2024, 1, 5, 0),
      row_amount = FloatVal (Finite (25 / 2))\<rparr>
   = Inr (stmttrn_lines 0 (2024, 1, 5, 0) (Finite (25 / 2)) [] [])"
    by code_simp
  have b: "stmttrn_lines 0 (2024, 1, 5, 0) (Finite (25 / 2)) [] [] ! 3
           = ''            <TRNAMT>12.50''"
    by code_simp
  have c: "two_decimals (format_2f (Finite (25 / 2)))" by code_simp
  show ?thesis
    using a b c trnamt_two_decimals [OF a] by blast
qed

text \<open>
  Claim C7 as the specification words it fails. A row whose amount cell is the float
  infinity is not dropped (it is not NaN) and its \<open>TRNAMT\<close> is \<open>inf\<close>, which has no
  fractional digits; a row whose amount cell is the float negative zero is rendered
  \<open>-0.00\<close>, not \<open>0.00\<close>, with type \<open>CREDIT\<close>.
\<close>

theorem trnamt_inf_and_negative_zero:
  "(case render_ofx_lines simple_lib ex_clock (parse_dataframe ex_columns [ex_row_inf]) ex_meta
           ''date'' ''amt'' None None False [] of
      Inr ls \<Rightarrow> [ls ! 43, ls ! 45] | Inl e \<Rightarrow> [])
     = [''            <TRNTYPE>CREDIT'', ''            <TRNAMT>inf'']
   \<and> \<not> two_decimals ''inf''
   \<and> (case render_ofx_lines simple_lib ex_clock (parse_dataframe ex_columns [ex_row_negzero])
           ex_meta ''date'' ''amt'' None None False [] of
      Inr ls \<Rightarrow> [ls ! 43, ls ! 45] | Inl e \<Rightarrow> [])
     = [''            <TRNTYPE>CREDIT'', ''            <TRNAMT>-0.00'']"
  by code_simp

text \<open>
  Claim C10. A missing cell (NaN) in the mapped memo column is turned into text by \<open>str\<close>
  before anything tests it: the \<open>MEMO\<close> line is \<open>nan\<close>, the identifier ends in the segment
  \<open>-nan\<close>, and the \<open>NAME\<close> line, when no name column is mapped, is \<open>nan\<close> too, not
  \<open>Transaction\<close>. A missing cell in the mapped name column gives the \<open>NAME\<close> line \<open>nan\<close>.
\<close>

theorem nan_cell_is_text:
  assumes "loop_body lib cols name_col memo_col row = Inr block"
  shows "(\<forall>c. memo_col = Some c \<and> c \<noteq> [] \<and> row_cells row c = Num (FloatVal NaN) \<longrightarrow>
            block ! 6 = ''            <MEMO>nan''
          \<and> block ! 4 = ''            <FITID>'' @ fmt_ymd (row_date row) @ ''-''
                @ format_2f (to_float (row_amount row)) @ ''-'' @ int_str (row_label row) @ ''-nan''
          \<and> (\<not> truthy name_col \<longrightarrow> block ! 5 = ''            <NAME>nan''))
       \<and> (\<forall>c. name_col = Some c \<and> c \<noteq> [] \<and> row_cells row c = Num (FloatVal NaN) \<longrightarrow>
            block ! 5 = ''            <NAME>nan'')"
proof -
  from loop_body_Inr [OF assms] obtain memo name where
    m: "optional_text lib cols row memo_col [] = Inr memo" and
    n: "optional_text lib cols row name_col memo = Inr name" and
    b: "block = stmttrn_lines (row_label row) (row_date row) (to_float (row_amount row)) name memo"
    by blast
  have s: "strip ''nan'' = ''nan''"
    by (simp add: strip_def lstrip_def rstrip_def is_space_def)
  have r: "remove_spaces ''nan'' = ''nan''" by (simp add: remove_spaces_def)
  have memo_nan: "memo = ''nan''"
    if "memo_col = Some c" "c \<noteq> []" "row_cells row c = Num (FloatVal NaN)" for c
    using optional_text_cases [OF m] that s by auto
  have name_nan: "name = ''nan''"
    if "name_col = Some c" "c \<noteq> []" "row_cells row c = Num (FloatVal NaN)" for c
    using optional_text_cases [OF n] that s by auto
  have name_memo: "\<not> truthy name_col \<longrightarrow> name = memo"
    using optional_text_cases [OF n] by auto
  have fit: "generate_fitid i w a ''nan''
             = fmt_ymd w @ ''-'' @ format_2f a @ ''-'' @ int_str i @ ''-nan''" for i w a
    using generate_fitid_eq [of i w a "''nan''"] s r by simp
  show ?thesis
    using memo_nan name_nan name_memo by (auto simp: b stmttrn_nth fit)
qed

text \<open>
  The theorem on the row of 3 January, whose memo cell is missing: once with the memo
  column mapped and no name column, once with that column mapped as the name.
\<close>

theorem nan_cell_is_text_witness:
  "loop_body simple_lib ex_columns None (Some ''memo'')
     \<lparr>row_label = 1, row_cells = ex_row_b, row_date = (2024, 1, 3, 0),
      row_amount = FloatVal (Finite (- 101 / 2))\<rparr>
   = Inr (stmttrn_lines 1 (2024, 1, 3, 0) (Finite (- 101 / 2)) ''nan'' ''nan'')
   \<and> ex_row_b ''memo'' = Num (FloatVal NaN)
   \<and> drop 4 (stmttrn_lines 1 (2024, 1, 3, 0) (Finite (- 101 / 2)) ''nan'' ''nan'')
       = [''            <FITID>20240103--50.50-1-nan'', ''            <NAME>nan'',
          ''            <MEMO>nan'', ''          </STMTTRN>'']
   \<and> loop_body simple_lib ex_columns (Some ''memo'') None
     \<lparr>row_label = 1, row_cells = ex_row_b, row_date = (2024, 1, 3, 0),
      row_amount = FloatVal (Finite (- 101 / 2))\<rparr>
   = Inr (stmttrn_lines 1 (2024, 1, 3, 0) (Finite (- 101 / 2)) ''nan'' [])"
proof -
  have a: "loop_body simple_lib ex_columns None (Some ''memo'')
     \<lparr>row_label = 1, row_cells = ex_row_b, row_date = (2024, 1, 3, 0),
      row_amount = FloatVal (Finite (- 101 / 2))\<rparr>
   = Inr (stmttrn_lines 1 (2024, 1, 3, 0) (Finite (- 101 / 2)) ''nan'' ''nan'')"
    by code_simp
  have b: "loop_body simple_lib ex_columns (Some ''memo'') None
     \<lparr>row_label = 1, row_cells = ex_row_b, row_date = (2024, 1, 3, 0),
      row_amount = FloatVal (Finite (- 101 / 2))\<rparr>
   = Inr (stmttrn_lines 1 (2024, 1, 3, 0) (Finite (- 101 / 2)) ''nan'' [])"
    by code_simp
  have c: "ex_row_b ''memo'' = Num (FloatVal NaN)" by code_simp
  have d: "drop 4 (stmttrn_lines 1 (2024, 1, 3, 0) (Finite (- 101 / 2)) ''nan'' ''nan'')
       = [''            <FITID>20240103--50.50-1-nan'', ''            <NAME>nan'',
          ''            <MEMO>nan'', ''          </STMTTRN>'']"
    by code_simp
  show ?thesis
    using a b c d nan_cell_is_text [OF a] nan_cell_is_text [OF b] by blast
qed

section \<open>The frame after normalisation\<close>














section \<open>Columns that cannot be resolved\<close>

text \<open>
  What lines 58 and 59 do with a column name that cannot be resolved. When the mapped date
  column is no column of the source, or the mapped amount column is no column of the source
  and is not \<open>__date\<close>, the conversion returns no document: the result is the \<open>KeyError\<close>
  raised by line 58 or line 59, before any line of output exists.
\<close>

theorem missing_column_fails:
  assumes "date_col \<notin> set (columns df)
           \<or> (amount_col \<notin> set (columns df) \<and> amount_col \<noteq> ''__date'')"
  shows "render_ofx lib clock df meta date_col amount_col name_col memo_col invert_amount
           date_format
         = Inl (KeyError (if date_col \<notin> set (columns df) then date_col else amount_col))"
proof -
  have "normalized_frame lib df date_col amount_col invert_amount date_format
        = Inl (KeyError (if date_col \<notin> set (columns df) then date_col else amount_col))"
    using assms by (auto simp: normalized_frame_def getitem_def setitem_def Let_def)
  then show ?thesis
    by (simp add: render_ofx_def render_ofx_lines_def transactions_def)
qed

text \<open>The theorem on the example statement, with a wrong date column and a wrong amount column.\<close>

theorem missing_column_fails_witness:
  "''when'' \<notin> set (columns (parse_dataframe ex_columns [ex_row_a, ex_row_b]))
   \<and> render_ofx simple_lib ex_clock (parse_dataframe ex_columns [ex_row_a, ex_row_b]) ex_meta
        ''when'' ''amt'' None None False [] = Inl (KeyError ''when'')
   \<and> render_ofx simple_lib ex_clock (parse_dataframe ex_columns [ex_row_a, ex_row_b]) ex_meta
        ''date'' ''amount'' None None False [] = Inl (KeyError ''amount'')"
proof -
  let ?df = "parse_dataframe ex_columns [ex_row_a, ex_row_b]"
  have a: "''when'' \<notin> set (columns ?df)" by code_simp
  have b: "\<not> ''date'' \<notin> set (columns ?df)" by code_simp
  have c: "''amount'' \<notin> set (columns ?df) \<and> ''amount'' \<noteq> ''__date''" by code_simp
  have 1: "render_ofx simple_lib ex_clock ?df ex_meta ''when'' ''amt'' None None False []
           = Inl (KeyError ''when'')"
    using a missing_column_fails [of "''when''" ?df "''amt''" simple_lib ex_clock ex_meta None None False "[]"]
    by simp
  have 2: "render_ofx simple_lib ex_clock ?df ex_meta ''date'' ''amount'' None None False []
           = Inl (KeyError ''amount'')"
    using b c missing_column_fails [of "''date''" ?df "''amount''" simple_lib ex_clock ex_meta None None False "[]"]
    by simp
  show ?thesis using a 1 2 by blast
qed

text \<open>
  Claim C9: a mapped date or amount column that is absent from the source's columns makes
  the conversion fail before any output. The code breaks it at one name. Line 58 raises
  \<open>KeyError\<close> for a date column \<open>__date\<close> that the source does not have, but line 59 looks
  the amount column up in the frame that line 58 has already changed: with the amount
  column mapped to \<open>__date\<close>, a name the source does not have, the lookup finds the column
  just added and the conversion returns a document.
\<close>

theorem internal_date_column_is_found:
  "''__date'' \<notin> set (columns \<lparr>columns = [''date''], rows = []\<rparr>)
   \<and> (case render_ofx simple_lib ex_clock \<lparr>columns = [''date''], rows = []\<rparr> ex_meta
             ''date'' ''__date'' None None False [] of
         Inr doc \<Rightarrow> take 13 doc = ''OFXHEADER:100'' | Inl e \<Rightarrow> False)"
  by code_simp

section \<open>The document as a whole\<close>



lemma render_ofx_lines_Inr:
  assumes "render_ofx_lines lib clock df meta date_col amount_col name_col memo_col
             invert_amount date_format = Inr ls"
  shows "\<exists>txs blocks.
           transactions lib df date_col amount_col invert_amount date_format = Inr txs
         \<and> list_all2 (\<lambda>r b. loop_body lib (columns df @ [''__date'', ''__amount''])
                                 name_col memo_col r = Inr b) txs blocks
         \<and> ls = header_lines meta (snd (snd (statement_dates clock txs)))
                   (fst (statement_dates clock txs)) (fst (snd (statement_dates clock txs)))
                 @ concat blocks
                 @ footer_lines (fst (snd (statement_dates clock txs)))"
proof -
  from assms obtain txs where
    t: "transactions lib df date_col amount_col invert_amount date_format = Inr txs"
    by (auto simp: render_ofx_lines_def split: sum.splits)
  from assms t obtain body where
    l: "loop lib (columns df @ [''__date'', ''__amount'']) name_col memo_col txs = Inr body"
    and ls: "ls = header_lines meta (snd (snd (statement_dates clock txs)))
                   (fst (statement_dates clock txs)) (fst (snd (statement_dates clock txs)))
                 @ body @ footer_lines (fst (snd (statement_dates clock txs)))"
    by (auto simp: render_ofx_lines_def split: sum.splits prod.splits)
  from loop_blocks [OF l] t ls show ?thesis by blast
qed


lemma simple_lib_sorts_stably: "sorts_stably simple_lib"
  by (simp add: sorts_stably_def simple_lib_def)

lemma simple_lib_sorts: "sorts simple_lib"
  using simple_lib_sorts_stably by (rule sorts_stably_sorts)


subsection \<open>The lines of the document text\<close>





lemma one_line_append [simp]: "one_line (a @ b) = (one_line a \<and> one_line b)"
  by (simp add: one_line_def)

lemma one_line_Cons: "one_line (c # s) = (\<not> line_break c \<and> one_line s)"
  by (simp add: one_line_def)

lemma one_line_Nil [simp]: "one_line []"
  by (simp add: one_line_def)


lemma digit_not_break: "is_digit c \<Longrightarrow> \<not> line_break c"
  by (auto simp: is_digit_def line_break_def)

lemma one_line_digits: "list_all is_digit s \<Longrightarrow> one_line s"
  by (auto simp: one_line_def list_all_iff digit_not_break)

lemma one_line_fmt_ymd [simp]: "one_line (fmt_ymd t)"
  by (rule one_line_digits) (rule fmt_ymd_digits)

lemma one_line_fmt_ymdhms [simp]: "one_line (fmt_ymdhms t)"
  by (simp add: fmt_ymdhms_def Let_def one_line_digits zpad_digits)

lemma one_line_int_str [simp]: "one_line (int_str i)"
  by (simp add: int_str_def one_line_Cons one_line_digits dec_digits line_break_def)

lemma one_line_format_2f [simp]: "one_line (format_2f a)"
  by (cases a)
     (simp_all add: hundredths_def one_line_Cons one_line_digits dec_digits zpad_digits
        line_break_def)













section \<open>The order of the transactions\<close>

lemma sorted_row_dates:
  "sorted (map row_date rs) \<Longrightarrow> sorted (map (\<lambda>r. ts_date (row_date r)) rs)"
  by (induction rs) (auto simp: ts_date_mono)

lemma blocks_dtposted:
  "list_all2 (\<lambda>r b. loop_body lib cols nc mc r = Inr b) txs blocks \<Longrightarrow>
   list_all2 (\<lambda>r b. b ! 2 = ''            <DTPOSTED>'' @ fmt_ymd (row_date r)) txs blocks"
proof (induction txs blocks rule: list_all2_induct)
  case Nil
  then show ?case by simp
next
  case (Cons r rs b bs)
  from loop_body_Inr [OF Cons.hyps(1)] have "b ! 2 = ''            <DTPOSTED>'' @ fmt_ymd (row_date r)"
    by (auto simp: stmttrn_nth)
  with Cons show ?case by simp
qed

text \<open>
  Claim C1, as the code has it. The sort key is the parsed timestamp, date and time of day.
  When the library's sort returns a sorted rearrangement of its input, the blocks of the
  document are the rows that \<open>dropna\<close> kept, each once, in non-decreasing order of their
  timestamps, hence of their \<open>DTPOSTED\<close> dates. When the library's sort is moreover the
  stable one, the rows with one and the same timestamp are in their original relative order.
  The code calls \<open>sort_values\<close> with its default algorithm and asks for no stable one.
\<close>

theorem blocks_sorted_by_timestamp:
  assumes s: "sorts lib"
    and ls: "render_ofx_lines lib clock df meta date_col amount_col name_col memo_col
               invert_amount date_format = Inr ls"
  shows "\<exists>df2 txs blocks.
           normalized_frame lib df date_col amount_col invert_amount date_format = Inr df2
         \<and> transactions lib df date_col amount_col invert_amount date_format = Inr txs
         \<and> ls = header_lines meta (snd (snd (statement_dates clock txs)))
                   (fst (statement_dates clock txs)) (fst (snd (statement_dates clock txs)))
                 @ concat blocks
                 @ footer_lines (fst (snd (statement_dates clock txs)))
         \<and> list_all2 (\<lambda>r b. b ! 2 = ''            <DTPOSTED>'' @ fmt_ymd (row_date r)) txs blocks
         \<and> sorted (map row_date txs)
         \<and> sorted (map (\<lambda>r. ts_date (row_date r)) txs)
         \<and> mset txs = mset (dropna df2)
         \<and> (sorts_stably lib \<longrightarrow>
              (\<forall>t. filter (\<lambda>r. row_date r = t) txs = filter (\<lambda>r. row_date r = t) (dropna df2)))"
proof -
  from render_ofx_lines_Inr [OF ls] obtain txs blocks where
    t: "transactions lib df date_col amount_col invert_amount date_format = Inr txs"
    and b: "list_all2 (\<lambda>r b. loop_body lib (columns df @ [''__date'', ''__amount''])
                                 name_col memo_col r = Inr b) txs blocks"
    and e: "ls = header_lines meta (snd (snd (statement_dates clock txs)))
                   (fst (statement_dates clock txs)) (fst (snd (statement_dates clock txs)))
                 @ concat blocks
                 @ footer_lines (fst (snd (statement_dates clock txs)))"
    by blast
  from t obtain df2 where
    n: "normalized_frame lib df date_col amount_col invert_amount date_format = Inr df2"
    and txs: "txs = sort_values lib (dropna df2)"
    by (auto simp: transactions_def split: sum.splits)
  have so: "sorted (map row_date txs)" unfolding txs using s by (rule sort_values_sorted)
  have sd: "sorted (map (\<lambda>r. ts_date (row_date r)) txs)" using so by (rule sorted_row_dates)
  have m: "mset txs = mset (dropna df2)" unfolding txs using s by (rule sort_values_mset)
  have st: "sorts_stably lib \<longrightarrow>
              (\<forall>t. filter (\<lambda>r. row_date r = t) txs = filter (\<lambda>r. row_date r = t) (dropna df2))"
    unfolding txs by (simp add: sort_values_stable sort_key_stable)
  show ?thesis
    using n t e blocks_dtposted [OF b] so sd m st by blast
qed

text \<open>The theorem on the example statement: 3 January comes before 5 January.\<close>

theorem blocks_sorted_by_timestamp_witness:
  "(case render_ofx_lines simple_lib ex_clock (parse_dataframe ex_columns [ex_row_a, ex_row_b])
           ex_meta ''date'' ''amt'' None (Some ''memo'') False [] of
      Inr ls \<Rightarrow> [ls ! 44, ls ! 46, ls ! 52, ls ! 54] | Inl e \<Rightarrow> [])
   = [''            <DTPOSTED>20240103'', ''            <FITID>20240103--50.50-1-nan'',
      ''            <DTPOSTED>20240105'', ''            <FITID>20240105-100.00-0-Coffeeshop'']
   \<and> (\<exists>txs. transactions simple_lib (parse_dataframe ex_columns [ex_row_a, ex_row_b])
                ''date'' ''amt'' False [] = Inr txs
            \<and> sorted (map row_date txs))"
proof -
  let ?r = "render_ofx_lines simple_lib ex_clock (parse_dataframe ex_columns [ex_row_a, ex_row_b])
           ex_meta ''date'' ''amt'' None (Some ''memo'') False []"
  have ev: "(case ?r of Inr ls \<Rightarrow> [ls ! 44, ls ! 46, ls ! 52, ls ! 54] | Inl e \<Rightarrow> [])
   = [''            <DTPOSTED>20240103'', ''            <FITID>20240103--50.50-1-nan'',
      ''            <DTPOSTED>20240105'', ''            <FITID>20240105-100.00-0-Coffeeshop'']"
    by code_simp
  then obtain ls where ls: "?r = Inr ls" by (auto split: sum.splits)
  from blocks_sorted_by_timestamp [OF simple_lib_sorts ls] obtain txs where
    "transactions simple_lib (parse_dataframe ex_columns [ex_row_a, ex_row_b])
       ''date'' ''amt'' False [] = Inr txs" "sorted (map row_date txs)"
    by auto
  with ev show ?thesis by blast
qed

text \<open>
  Claim C1 as the specification words it fails, whatever the sort algorithm: two rows of
  5 January 2024, the first at 18:00 and the second at 09:00, have equal dates (both
  \<open>DTPOSTED\<close> lines are \<open>20240105\<close>), and the document has the second row (index 1) before
  the first (index 0).
\<close>

theorem same_day_rows_reordered:
  "(case render_ofx_lines simple_lib ex_clock
           (parse_dataframe ex_columns [ex_row_evening, ex_row_morning])
           ex_meta ''date'' ''amt'' None None False [] of
      Inr ls \<Rightarrow> [ls ! 44, ls ! 46, ls ! 52, ls ! 54] | Inl e \<Rightarrow> [])
   = [''            <DTPOSTED>20240105'', ''            <FITID>20240105-2.00-1'',
      ''            <DTPOSTED>20240105'', ''            <FITID>20240105-1.00-0'']"
  by code_simp

section \<open>The date range and the clock\<close>

lemma header_nth_start:
  "(header_lines meta now s e @ rest) ! 40 = ''          <DTSTART>'' @ fmt_ymd s"
  by (simp add: header_lines_def)

lemma header_nth_end:
  "(header_lines meta now s e @ rest) ! 41 = ''          <DTEND>'' @ fmt_ymd e"
  by (simp add: header_lines_def)

lemma header_nth_server:
  "(header_lines meta now s e @ rest) ! 17 = ''      <DTSERVER>'' @ fmt_ymdhms now"
  by (simp add: header_lines_def)

lemma header_update_server:
  "(header_lines meta now s e @ rest)[17 := ''      <DTSERVER>'' @ fmt_ymdhms now']
   = header_lines meta now' s e @ rest"
  by (simp add: header_lines_def eval_nat_numeral)

lemma fmt_ymd_date: "ts_date t = ts_date u \<Longrightarrow> fmt_ymd t = fmt_ymd u"
  by (simp add: ts_date_def fmt_ymd_def)

lemma statement_dates_Nil: "statement_dates clock [] = (clock 0, clock 1, clock 2)"
  by (simp add: statement_dates_def)

lemma statement_dates_Cons:
  "txs \<noteq> [] \<Longrightarrow> statement_dates clock txs
     = (Min (set (map row_date txs)), Max (set (map row_date txs)), clock 0)"
proof (cases txs)
  case Nil
  assume "txs \<noteq> []"
  with Nil show ?thesis by simp
next
  case (Cons r rs)
  have mn: "Min (set (map row_date (r # rs))) = fold min (map row_date rs) (row_date r)"
    by (simp only: list.map Min.set_eq_fold)
  have mx: "Max (set (map row_date (r # rs))) = fold max (map row_date rs) (row_date r)"
    by (simp only: list.map Max.set_eq_fold)
  show ?thesis
    unfolding Cons mn mx by (simp add: statement_dates_def)
qed

text \<open>
  Claim C6, as the code has it. When at least one transaction is rendered, \<open>DTSTART\<close> is
  the date of the least and \<open>DTEND\<close> the date of the greatest parsed timestamp, so the date
  of \<open>DTSTART\<close> is not after that of \<open>DTEND\<close>. When none is rendered, \<open>DTSTART\<close> is the
  date of the clock reading of line 64 and \<open>DTEND\<close> the date of the separate clock reading
  of line 65; the two are the same date when both readings fall on the same day.
\<close>

theorem statement_date_range:
  assumes ls: "render_ofx_lines lib clock df meta date_col amount_col name_col memo_col
                 invert_amount date_format = Inr ls"
    and t: "transactions lib df date_col amount_col invert_amount date_format = Inr txs"
  shows "(txs \<noteq> [] \<longrightarrow>
            ls ! 40 = ''          <DTSTART>'' @ fmt_ymd (Min (set (map row_date txs)))
          \<and> ls ! 41 = ''          <DTEND>'' @ fmt_ymd (Max (set (map row_date txs)))
          \<and> ts_date (Min (set (map row_date txs))) \<le> ts_date (Max (set (map row_date txs))))
       \<and> (txs = [] \<longrightarrow>
            ls ! 40 = ''          <DTSTART>'' @ fmt_ymd (clock 0)
          \<and> ls ! 41 = ''          <DTEND>'' @ fmt_ymd (clock 1)
          \<and> (ts_date (clock 0) = ts_date (clock 1) \<longrightarrow>
                ls ! 41 = ''          <DTEND>'' @ fmt_ymd (clock 0)))"
proof -
  from render_ofx_lines_Inr [OF ls] t obtain blocks where
    e: "ls = header_lines meta (snd (snd (statement_dates clock txs)))
                   (fst (statement_dates clock txs)) (fst (snd (statement_dates clock txs)))
                 @ concat blocks
                 @ footer_lines (fst (snd (statement_dates clock txs)))"
    by auto
  have s: "ls ! 40 = ''          <DTSTART>'' @ fmt_ymd (fst (statement_dates clock txs))"
    unfolding e by (rule header_nth_start)
  have d: "ls ! 41 = ''          <DTEND>'' @ fmt_ymd (fst (snd (statement_dates clock txs)))"
    unfolding e by (rule header_nth_end)
  have ne: "txs \<noteq> [] \<longrightarrow>
            ls ! 40 = ''          <DTSTART>'' @ fmt_ymd (Min (set (map row_date txs)))
          \<and> ls ! 41 = ''          <DTEND>'' @ fmt_ymd (Max (set (map row_date txs)))
          \<and> ts_date (Min (set (map row_date txs))) \<le> ts_date (Max (set (map row_date txs)))"
  proof
    assume n: "txs \<noteq> []"
    have fin: "finite (set (map row_date txs))" "set (map row_date txs) \<noteq> {}" using n by simp_all
    then have "Min (set (map row_date txs)) \<le> Max (set (map row_date txs))"
      by (meson Max_ge Min_le order_trans ex_in_conv)
    then have "ts_date (Min (set (map row_date txs))) \<le> ts_date (Max (set (map row_date txs)))"
      by (rule ts_date_mono)
    then show "ls ! 40 = ''          <DTSTART>'' @ fmt_ymd (Min (set (map row_date txs)))
          \<and> ls ! 41 = ''          <DTEND>'' @ fmt_ymd (Max (set (map row_date txs)))
          \<and> ts_date (Min (set (map row_date txs))) \<le> ts_date (Max (set (map row_date txs)))"
      using s d by (simp add: statement_dates_Cons [OF n])
  qed
  have em: "txs = [] \<longrightarrow>
            ls ! 40 = ''          <DTSTART>'' @ fmt_ymd (clock 0)
          \<and> ls ! 41 = ''          <DTEND>'' @ fmt_ymd (clock 1)
          \<and> (ts_date (clock 0) = ts_date (clock 1) \<longrightarrow>
                ls ! 41 = ''          <DTEND>'' @ fmt_ymd (clock 0))"
    using s d fmt_ymd_date [of "clock 0" "clock 1"] by (auto simp: statement_dates_Nil)
  show ?thesis using ne em by blast
qed

text \<open>
  The theorem on the example statement, and on a source without rows read while the clock
  stands at noon of 1 June 2024.
\<close>

theorem statement_date_range_witness:
  "(case render_ofx_lines simple_lib ex_clock (parse_dataframe ex_columns [ex_row_a, ex_row_b])
           ex_meta ''date'' ''amt'' None (Some ''memo'') False [] of
      Inr ls \<Rightarrow> [ls ! 40, ls ! 41] | Inl e \<Rightarrow> [])
   = [''          <DTSTART>20240103'', ''          <DTEND>20240105'']
   \<and> (case render_ofx_lines simple_lib ex_clock (parse_dataframe ex_columns [])
           ex_meta ''date'' ''amt'' None (Some ''memo'') False [] of
      Inr ls \<Rightarrow> [ls ! 40, ls ! 41] | Inl e \<Rightarrow> [])
   = [''          <DTSTART>20240601'', ''          <DTEND>20240601'']
   \<and> ts_date (ex_clock 0) = ts_date (ex_clock 1)"
proof -
  let ?r = "render_ofx_lines simple_lib ex_clock (parse_dataframe ex_columns [ex_row_a, ex_row_b])
           ex_meta ''date'' ''amt'' None (Some ''memo'') False []"
  let ?q = "render_ofx_lines simple_lib ex_clock (parse_dataframe ex_columns [])
           ex_meta ''date'' ''amt'' None (Some ''memo'') False []"
  have a: "(case ?r of Inr ls \<Rightarrow> [ls ! 40, ls ! 41] | Inl e \<Rightarrow> [])
           = [''          <DTSTART>20240103'', ''          <DTEND>20240105'']"
    by code_simp
  have b: "(case ?q of Inr ls \<Rightarrow> [ls ! 40, ls ! 41] | Inl e \<Rightarrow> [])
           = [''          <DTSTART>20240601'', ''          <DTEND>20240601'']"
    by code_simp
  have c: "ts_date (ex_clock 0) = ts_date (ex_clock 1)" by (simp add: ex_clock_def)
  have ta: "(case transactions simple_lib (parse_dataframe ex_columns [ex_row_a, ex_row_b])
                   ''date'' ''amt'' False [] of Inr txs \<Rightarrow> txs \<noteq> [] | Inl e \<Rightarrow> False)"
    by code_simp
  have tb: "(case transactions simple_lib (parse_dataframe ex_columns [])
                   ''date'' ''amt'' False [] of Inr txs \<Rightarrow> txs = [] | Inl e \<Rightarrow> False)"
    by code_simp
  from a obtain ls where ls: "?r = Inr ls" by (auto split: sum.splits)
  from b obtain ms where ms: "?q = Inr ms" by (auto split: sum.splits)
  from ta obtain txs where txs: "transactions simple_lib (parse_dataframe ex_columns [ex_row_a, ex_row_b])
                   ''date'' ''amt'' False [] = Inr txs" "txs \<noteq> []" by (auto split: sum.splits)
  from tb have tq: "transactions simple_lib (parse_dataframe ex_columns [])
                   ''date'' ''amt'' False [] = Inr []" by (auto split: sum.splits)
  note statement_date_range [OF ls txs(1)] statement_date_range [OF ms tq]
  with a b c show ?thesis by blast
qed

text \<open>
  Claim C6 as the specification words it fails: \<open>datetime.now()\<close> is called once for the
  start and again for the end. On a source without rows, with the first call in the last
  second of 31 December 2024 and the second call after midnight, \<open>DTSTART\<close> and \<open>DTEND\<close>
  are different dates, so they are not both the date of one processing timestamp.
\<close>

theorem empty_range_across_midnight:
  "(case render_ofx_lines simple_lib ex_clock_midnight (parse_dataframe ex_columns [])
           ex_meta ''date'' ''amt'' None None False [] of
      Inr ls \<Rightarrow> [ls ! 40, ls ! 41] | Inl e \<Rightarrow> [])
   = [''          <DTSTART>20241231'', ''          <DTEND>20250101'']"
  by code_simp

lemma statement_dates_clock:
  "clock1 0 = clock2 0 \<Longrightarrow> clock1 1 = clock2 1 \<Longrightarrow> clock1 2 = clock2 2 \<Longrightarrow>
   statement_dates clock1 txs = statement_dates clock2 txs"
  by (cases txs) (simp_all add: statement_dates_def)

text \<open>
  Claim C2, as the code has it. The document is a function of the input and of what
  \<open>datetime.now()\<close> returns during the run: two invocations with identical input whose
  clock readings agree produce identical text. When at least one transaction is rendered,
  the clock is read once, for \<open>DTSERVER\<close>, and two invocations with identical input differ at
  most in that line.
\<close>

theorem same_clock_same_document:
  "((\<forall>k<3. clock1 k = clock2 k) \<longrightarrow>
      render_ofx lib clock1 df meta date_col amount_col name_col memo_col invert_amount date_format
      = render_ofx lib clock2 df meta date_col amount_col name_col memo_col invert_amount
          date_format)
   \<and> (\<forall>txs ls. transactions lib df date_col amount_col invert_amount date_format = Inr txs
         \<and> txs \<noteq> []
         \<and> render_ofx_lines lib clock1 df meta date_col amount_col name_col memo_col
              invert_amount date_format = Inr ls
         \<longrightarrow> render_ofx_lines lib clock2 df meta date_col amount_col name_col memo_col
              invert_amount date_format
             = Inr (ls[17 := ''      <DTSERVER>'' @ fmt_ymdhms (clock2 0)]))"
proof (intro conjI impI allI)
  assume a: "\<forall>k<3. clock1 k = clock2 k"
  have "clock1 0 = clock2 0" "clock1 1 = clock2 1" "clock1 2 = clock2 2" using a by simp_all
  then have sd: "statement_dates clock1 txs = statement_dates clock2 txs" for txs
    by (rule statement_dates_clock)
  have "render_ofx_lines lib clock1 df meta date_col amount_col name_col memo_col invert_amount
          date_format
        = render_ofx_lines lib clock2 df meta date_col amount_col name_col memo_col invert_amount
            date_format"
    by (cases "transactions lib df date_col amount_col invert_amount date_format")
       (simp_all add: render_ofx_lines_def sd)
  then show "render_ofx lib clock1 df meta date_col amount_col name_col memo_col invert_amount
               date_format
             = render_ofx lib clock2 df meta date_col amount_col name_col memo_col invert_amount
                 date_format"
    by (simp add: render_ofx_def)
next
  fix txs ls
  assume h: "transactions lib df date_col amount_col invert_amount date_format = Inr txs
         \<and> txs \<noteq> []
         \<and> render_ofx_lines lib clock1 df meta date_col amount_col name_col memo_col
              invert_amount date_format = Inr ls"
  then have t: "transactions lib df date_col amount_col invert_amount date_format = Inr txs"
    and n: "txs \<noteq> []"
    and l: "render_ofx_lines lib clock1 df meta date_col amount_col name_col memo_col
              invert_amount date_format = Inr ls"
    by simp_all
  let ?mn = "Min (set (map row_date txs))" and ?mx = "Max (set (map row_date txs))"
  from l obtain body where
    b: "loop lib (columns df @ [''__date'', ''__amount'']) name_col memo_col txs = Inr body"
    and e: "ls = header_lines meta (clock1 0) ?mn ?mx @ body @ footer_lines ?mx"
    by (auto simp: render_ofx_lines_def t statement_dates_Cons [OF n] split: sum.splits)
  have "render_ofx_lines lib clock2 df meta date_col amount_col name_col memo_col
              invert_amount date_format
        = Inr (header_lines meta (clock2 0) ?mn ?mx @ body @ footer_lines ?mx)"
    by (simp add: render_ofx_lines_def t statement_dates_Cons [OF n] b)
  then show "render_ofx_lines lib clock2 df meta date_col amount_col name_col memo_col
              invert_amount date_format
             = Inr (ls[17 := ''      <DTSERVER>'' @ fmt_ymdhms (clock2 0)])"
    unfolding e by (simp only: header_update_server)
qed

text \<open>
  The theorem on the example statement: with a clock that agrees with the first on its
  first three readings, and with a clock that stands a second later.
\<close>

theorem same_clock_same_document_witness:
  "render_ofx simple_lib ex_clock (parse_dataframe ex_columns [ex_row_a, ex_row_b]) ex_meta
      ''date'' ''amt'' None (Some ''memo'') False []
   = render_ofx simple_lib (\<lambda>k. if k < 3 then ex_clock k else (2030, 1, 1, 0))
      (parse_dataframe ex_columns [ex_row_a, ex_row_b]) ex_meta
      ''date'' ''amt'' None (Some ''memo'') False []
   \<and> (case render_ofx_lines simple_lib ex_clock_later
             (parse_dataframe ex_columns [ex_row_a, ex_row_b]) ex_meta
             ''date'' ''amt'' None (Some ''memo'') False [] of
         Inr ls \<Rightarrow> ls ! 17 | Inl e \<Rightarrow> [])
      = ''      <DTSERVER>20240601120001''"
proof -
  let ?df = "parse_dataframe ex_columns [ex_row_a, ex_row_b]"
  let ?c2 = "\<lambda>k. if k < 3 then ex_clock k else (2030, 1, 1, 0)"
  have a: "\<forall>k<3. ex_clock k = ?c2 k" by simp
  have 1: "render_ofx simple_lib ex_clock ?df ex_meta ''date'' ''amt'' None (Some ''memo'') False []
           = render_ofx simple_lib ?c2 ?df ex_meta ''date'' ''amt'' None (Some ''memo'') False []"
    using a same_clock_same_document [of ex_clock ?c2 simple_lib ?df ex_meta "''date''" "''amt''"
             None "Some ''memo''" False "[]"]
    by blast
  have ta: "(case transactions simple_lib ?df ''date'' ''amt'' False [] of
               Inr txs \<Rightarrow> txs \<noteq> [] | Inl e \<Rightarrow> False)"
    by code_simp
  then obtain txs where t: "transactions simple_lib ?df ''date'' ''amt'' False [] = Inr txs"
    and n: "txs \<noteq> []" by (auto split: sum.splits)
  have la: "(case render_ofx_lines simple_lib ex_clock ?df ex_meta ''date'' ''amt'' None
                   (Some ''memo'') False [] of Inr ls \<Rightarrow> length ls = 67 | Inl e \<Rightarrow> False)"
    by code_simp
  then obtain ls where l: "render_ofx_lines simple_lib ex_clock ?df ex_meta ''date'' ''amt'' None
                   (Some ''memo'') False [] = Inr ls" and len: "length ls = 67"
    by (auto split: sum.splits)
  have "render_ofx_lines simple_lib ex_clock_later ?df ex_meta ''date'' ''amt'' None
                   (Some ''memo'') False []
        = Inr (ls[17 := ''      <DTSERVER>'' @ fmt_ymdhms (ex_clock_later 0)])"
    using t n l same_clock_same_document [of ex_clock ex_clock_later simple_lib ?df ex_meta
             "''date''" "''amt''" None "Some ''memo''" False "[]"]
    by blast
  moreover have "fmt_ymdhms (ex_clock_later 0) = ''20240601120001''" by code_simp
  ultimately have 2: "(case render_ofx_lines simple_lib ex_clock_later ?df ex_meta
             ''date'' ''amt'' None (Some ''memo'') False [] of
         Inr ls \<Rightarrow> ls ! 17 | Inl e \<Rightarrow> [])
      = ''      <DTSERVER>20240601120001''"
    using len by simp
  show ?thesis using 1 2 by blast
qed

text \<open>
  Claim C2 as the specification words it fails: the same rows, mapping, metadata and
  options, converted at 12:00:00 and at 12:00:01, give different texts.
\<close>

theorem document_depends_on_clock:
  "render_ofx simple_lib ex_clock (parse_dataframe ex_columns [ex_row_a, ex_row_b]) ex_meta
      ''date'' ''amt'' None (Some ''memo'') False []
   \<noteq> render_ofx simple_lib ex_clock_later (parse_dataframe ex_columns [ex_row_a, ex_row_b])
      ex_meta ''date'' ''amt'' None (Some ''memo'') False []"
  by code_simp

section \<open>Removing a row that does not parse\<close>








lemma getitem_delete_Inl:
  "getitem df c = Inl e \<Longrightarrow> getitem (delete_row k df) c = Inl e"
  by (auto simp: getitem_def delete_row_def split: if_splits)










end
